theory Spec2Isabelle
  imports Main "HOL-Library.Sublist"
begin

section \<open>Constants of the application\<close>

text \<open>
  The application is one Streamlit script (\<^verbatim>\<open>app.py\<close>) that is executed from top to
  bottom on every interaction. Python strings are modelled by \<^typ>\<open>string\<close>, holding the
  UTF-8 bytes of the text: the script only concatenates strings, compares them for
  equality and tests them for emptiness, and UTF-8 encoding is injective and commutes
  with concatenation. Bytes outside printable ASCII are written \<open>CHR 0x..\<close>.
\<close>

definition DEFAULT_MODEL :: string where
  "DEFAULT_MODEL = ''gemini-2.0-flash''"

definition SYSTEM_PROMPT :: string where
  "SYSTEM_PROMPT =
     [CHR 0x0A, CHR 0xEB, CHR 0x8B, CHR 0xB9, CHR 0xEC, CHR 0x8B, CHR 0xA0, CHR 0xEC, CHR 0x9D] @
     [CHR 0x80] @ '' '' @
     [CHR 0xEA, CHR 0xB3, CHR 0xA0, CHR 0xEA, CHR 0xB0, CHR 0x9D, CHR 0xEC, CHR 0x9D, CHR 0x98] @
     '' '' @
     [CHR 0xEC, CHR 0x83, CHR 0x81, CHR 0xED, CHR 0x99, CHR 0xA9, CHR 0xEC, CHR 0x97, CHR 0x90] @
     '' '' @ [CHR 0xEB, CHR 0xA7, CHR 0x9E, CHR 0xEB, CHR 0x8A, CHR 0x94] @ '' '' @
     [CHR 0xEC, CHR 0x98, CHR 0xB7, CHR 0xEC, CHR 0xB0, CHR 0xA8, CHR 0xEB, CHR 0xA6, CHR 0xBC] @
     [CHR 0xEC, CHR 0x9D, CHR 0x84] @ '' '' @
     [CHR 0xEA, CHR 0xB0, CHR 0x84, CHR 0xEA, CHR 0xB2, CHR 0xB0, CHR 0xED, CHR 0x95, CHR 0x98] @
     [CHR 0xEA, CHR 0xB2, CHR 0x8C] @ '' '' @
     [CHR 0xEC, CHR 0xB6, CHR 0x94, CHR 0xEC, CHR 0xB2, CHR 0x9C, CHR 0xED, CHR 0x95, CHR 0xB4] @
     [CHR 0xEC, CHR 0xA3, CHR 0xBC, CHR 0xEB, CHR 0x8A, CHR 0x94] @ '' '' @
     [CHR 0xEC, CHR 0xB9, CHR 0x9C, CHR 0xEC, CHR 0xA0, CHR 0x88, CHR 0xED, CHR 0x95, CHR 0x9C] @
     '' AI '' @
     [CHR 0xEC, CHR 0x8A, CHR 0xA4, CHR 0xED, CHR 0x83, CHR 0x80, CHR 0xEC, CHR 0x9D, CHR 0xBC] @
     [CHR 0xEB, CHR 0xA6, CHR 0xAC, CHR 0xEC, CHR 0x8A, CHR 0xA4, CHR 0xED, CHR 0x8A, CHR 0xB8] @
     [CHR 0xEC, CHR 0x9E, CHR 0x85, CHR 0xEB, CHR 0x8B, CHR 0x88, CHR 0xEB, CHR 0x8B, CHR 0xA4] @
     ''.'' @
     [CHR 0x0A, CHR 0xEA, CHR 0xB3, CHR 0xA0, CHR 0xEA, CHR 0xB0, CHR 0x9D, CHR 0xEC, CHR 0x9D] @
     [CHR 0x80] @ '' '' @
     [CHR 0xEC, CHR 0x99, CHR 0xB8, CHR 0xEC, CHR 0xB6, CHR 0x9C] @ '' '' @
     [CHR 0xEC, CHR 0xA0, CHR 0x84] @ '' '' @
     [CHR 0xEB, CHR 0xB0, CHR 0x94, CHR 0xEC, CHR 0x81, CHR 0x9C] @ '' '' @
     [CHR 0xEC, CHR 0x83, CHR 0x81, CHR 0xED, CHR 0x99, CHR 0xA9, CHR 0xEC, CHR 0x9D, CHR 0xB4] @
     [CHR 0xEB, CHR 0xAF, CHR 0x80, CHR 0xEB, CHR 0xA1, CHR 0x9C] @ '', '' @
     [CHR 0xEB, CHR 0x8C, CHR 0x80, CHR 0xEB, CHR 0x8B, CHR 0xB5, CHR 0xEC, CHR 0x9D, CHR 0x80] @
     '' '' @
     [CHR 0xEB, CHR 0xB0, CHR 0x98, CHR 0xEB, CHR 0x93, CHR 0x9C, CHR 0xEC, CHR 0x8B, CHR 0x9C] @
     '' '' @
     [CHR 0xEA, CHR 0xB0, CHR 0x84, CHR 0xEA, CHR 0xB2, CHR 0xB0, CHR 0xED, CHR 0x95, CHR 0x98] @
     [CHR 0xEA, CHR 0xB3, CHR 0xA0] @ '' '' @
     [CHR 0xEC, CHR 0x8B, CHR 0xA4, CHR 0xEC, CHR 0x9A, CHR 0xA9, CHR 0xEC, CHR 0xA0, CHR 0x81] @
     [CHR 0xEC, CHR 0x9D, CHR 0xB4, CHR 0xEC, CHR 0x96, CHR 0xB4, CHR 0xEC, CHR 0x95, CHR 0xBC] @
     '' '' @
     [CHR 0xED, CHR 0x95, CHR 0xA9, CHR 0xEB, CHR 0x8B, CHR 0x88, CHR 0xEB, CHR 0x8B, CHR 0xA4] @
     ''.'' @ [CHR 0x0A, CHR 0x0A] @ ''['' @
     [CHR 0xEC, CHR 0x9A, CHR 0xB4, CHR 0xEC, CHR 0x98, CHR 0x81] @ '' '' @
     [CHR 0xEA, CHR 0xB7, CHR 0x9C, CHR 0xEC, CHR 0xB9, CHR 0x99] @ '']'' @
     [CHR 0x0A] @ ''1. '' @
     [CHR 0xEC, CHR 0x82, CHR 0xAC, CHR 0xEC, CHR 0x9A, CHR 0xA9, CHR 0xEC, CHR 0x9E, CHR 0x90] @
     [CHR 0xEA, CHR 0xB0, CHR 0x80] @ '' '' @
     [CHR 0xEC, CHR 0x98, CHR 0xA4, CHR 0xEB, CHR 0x8A, CHR 0x98, CHR 0xEC, CHR 0x9D, CHR 0x98] @
     '' '' @ [CHR 0xEC, CHR 0x98, CHR 0xA8, CHR 0xEB, CHR 0x8F, CHR 0x84] @ '', '' @
     [CHR 0xEC, CHR 0x9D, CHR 0xBC, CHR 0xEA, CHR 0xB5, CHR 0x90, CHR 0xEC, CHR 0xB0, CHR 0xA8] @
     '', '' @ [CHR 0xEC, CHR 0x96, CHR 0xB4, CHR 0xEB, CHR 0x96, CHR 0xA4] @ '' '' @
     [CHR 0xED, CHR 0x99, CHR 0x9C, CHR 0xEB, CHR 0x8F, CHR 0x99, CHR 0xEC, CHR 0x9D, CHR 0x84] @
     '' '' @
     [CHR 0xED, CHR 0x95, CHR 0x98, CHR 0xEB, CHR 0x8A, CHR 0x94, CHR 0xEC, CHR 0xA7, CHR 0x80] @
     '', '' @ [CHR 0xEC, CHR 0x84, CHR 0xB1, CHR 0xEB, CHR 0xB3, CHR 0x84] @ '', '' @
     [CHR 0xEB, CHR 0x82, CHR 0x98, CHR 0xEC, CHR 0x9D, CHR 0xB4] @ '' '' @
     [CHR 0xEB, CHR 0x93, CHR 0xB1, CHR 0xEC, CHR 0x9D, CHR 0x98] @ '' '' @
     [CHR 0xEC, CHR 0xA0, CHR 0x95, CHR 0xEB, CHR 0xB3, CHR 0xB4, CHR 0xEB, CHR 0xA5, CHR 0xBC] @
     '' '' @
     [CHR 0xEC, CHR 0xA0, CHR 0x9C, CHR 0xEA, CHR 0xB3, CHR 0xB5, CHR 0xED, CHR 0x95, CHR 0x98] @
     [CHR 0xEB, CHR 0xA9, CHR 0xB4] @ '', '' @ [CHR 0xEC, CHR 0x9D, CHR 0xB4] @ '' '' @
     [CHR 0xEC, CHR 0xA0, CHR 0x95, CHR 0xEB, CHR 0xB3, CHR 0xB4, CHR 0xEB, CHR 0xA5, CHR 0xBC] @
     '' **'' @
     [CHR 0xEA, CHR 0xB5, CHR 0xAC, CHR 0xEC, CHR 0xB2, CHR 0xB4, CHR 0xEC, CHR 0xA0, CHR 0x81] @
     [CHR 0xEC, CHR 0x9C, CHR 0xBC, CHR 0xEB, CHR 0xA1, CHR 0x9C] @ ''** '' @
     [CHR 0xEC, CHR 0xA0, CHR 0x95, CHR 0xEB, CHR 0xA6, CHR 0xAC, CHR 0xED, CHR 0x95, CHR 0x98] @
     [CHR 0xEC, CHR 0x97, CHR 0xAC] @ '' '' @
     [CHR 0xEC, CHR 0x88, CHR 0x98, CHR 0xEC, CHR 0xA7, CHR 0x91, CHR 0xED, CHR 0x95, CHR 0x98] @
     [CHR 0xEC, CHR 0x84, CHR 0xB8, CHR 0xEC, CHR 0x9A, CHR 0x94] @ ''.'' @
     [CHR 0x0A] @ ''2. '' @
     [CHR 0xEC, CHR 0xA0, CHR 0x95, CHR 0xEB, CHR 0xB3, CHR 0xB4, CHR 0xEA, CHR 0xB0, CHR 0x80] @
     '' '' @
     [CHR 0xEC, CHR 0xB6, CHR 0xA9, CHR 0xEB, CHR 0xB6, CHR 0x84, CHR 0xED, CHR 0x95, CHR 0x98] @
     [CHR 0xEC, CHR 0xA7, CHR 0x80] @ '' '' @
     [CHR 0xEC, CHR 0x95, CHR 0x8A, CHR 0xEC, CHR 0x9C, CHR 0xBC, CHR 0xEB, CHR 0xA9, CHR 0xB4] @
     '', '' @
     [CHR 0xEB, CHR 0xB6, CHR 0x80, CHR 0xEC, CHR 0xA1, CHR 0xB1, CHR 0xED, CHR 0x95, CHR 0x9C] @
     '' '' @
     [CHR 0xEB, CHR 0xB6, CHR 0x80, CHR 0xEB, CHR 0xB6, CHR 0x84, CHR 0xEC, CHR 0x9D, CHR 0x84] @
     '' '' @ [CHR 0xED, CHR 0x95, CHR 0x9C] @ '' '' @
     [CHR 0xEB, CHR 0xAC, CHR 0xB8, CHR 0xEC, CHR 0x9E, CHR 0xA5, CHR 0xEC, CHR 0x9C, CHR 0xBC] @
     [CHR 0xEB, CHR 0xA1, CHR 0x9C] @ '' **'' @
     [CHR 0xEA, CHR 0xB0, CHR 0x84, CHR 0xEA, CHR 0xB2, CHR 0xB0, CHR 0xED, CHR 0x95, CHR 0x98] @
     [CHR 0xEA, CHR 0xB2, CHR 0x8C] @ ''** '' @
     [CHR 0xEB, CHR 0x90, CHR 0x98, CHR 0xEB, CHR 0xAC, CHR 0xBC, CHR 0xEC, CHR 0x96, CHR 0xB4] @
     [CHR 0xEB, CHR 0xB3, CHR 0xB4, CHR 0xEC, CHR 0x84, CHR 0xB8, CHR 0xEC, CHR 0x9A, CHR 0x94] @
     ''.'' @ [CHR 0x0A] @ ''3. '' @
     [CHR 0xED, CHR 0x95, CHR 0x84, CHR 0xEC, CHR 0x9A, CHR 0x94, CHR 0xED, CHR 0x95, CHR 0x9C] @
     '' '' @
     [CHR 0xEC, CHR 0xA0, CHR 0x95, CHR 0xEB, CHR 0xB3, CHR 0xB4, CHR 0xEB, CHR 0xA5, CHR 0xBC] @
     '' '' @ [CHR 0xEB, CHR 0xAA, CHR 0xA8, CHR 0xEB, CHR 0x91, CHR 0x90] @ '' '' @
     [CHR 0xEC, CHR 0x88, CHR 0x98, CHR 0xEC, CHR 0xA7, CHR 0x91, CHR 0xED, CHR 0x95, CHR 0x9C] @
     '' '' @
     [CHR 0xED, CHR 0x9B, CHR 0x84, CHR 0xEC, CHR 0x97, CHR 0x90, CHR 0xEB, CHR 0x8A, CHR 0x94] @
     '', '' @
     [CHR 0xEC, CHR 0x82, CHR 0xAC, CHR 0xEC, CHR 0x9A, CHR 0xA9, CHR 0xEC, CHR 0x9E, CHR 0x90] @
     [CHR 0xEC, CHR 0x9D, CHR 0x98] @ '' '' @
     [CHR 0xEC, CHR 0x83, CHR 0x81, CHR 0xED, CHR 0x99, CHR 0xA9] @ ''('' @
     [CHR 0xEC, CHR 0x98, CHR 0xA8, CHR 0xEB, CHR 0x8F, CHR 0x84] @ ''/'' @
     [CHR 0xED, CHR 0x99, CHR 0x9C, CHR 0xEB, CHR 0x8F, CHR 0x99] @ ''/'' @
     [CHR 0xEC, CHR 0x84, CHR 0xB1, CHR 0xEB, CHR 0xB3, CHR 0x84] @ ''/'' @
     [CHR 0xEB, CHR 0x82, CHR 0x98, CHR 0xEC, CHR 0x9D, CHR 0xB4] @ '' '' @
     [CHR 0xEB, CHR 0x93, CHR 0xB1] @ '')'' @ [CHR 0xEC, CHR 0x97, CHR 0x90] @ '' '' @
     [CHR 0xEB, CHR 0xA7, CHR 0x9E, CHR 0xEB, CHR 0x8A, CHR 0x94] @ '' **'' @
     [CHR 0xEC, CHR 0x8B, CHR 0xA4, CHR 0xEC, CHR 0x9A, CHR 0xA9, CHR 0xEC, CHR 0xA0, CHR 0x81] @
     [CHR 0xEC, CHR 0x9D, CHR 0xB8] @ '' '' @
     [CHR 0xEC, CHR 0x98, CHR 0xB7, CHR 0xEC, CHR 0xB0, CHR 0xA8, CHR 0xEB, CHR 0xA6, CHR 0xBC] @
     ''**'' @ [CHR 0xEC, CHR 0x9D, CHR 0x84] @ '' '' @ [CHR 0xED, CHR 0x95, CHR 0x9C] @
     '' '' @
     [CHR 0xEB, CHR 0xAC, CHR 0xB8, CHR 0xEB, CHR 0x8B, CHR 0xA8, CHR 0xEC, CHR 0x9C, CHR 0xBC] @
     [CHR 0xEB, CHR 0xA1, CHR 0x9C] @ '' **'' @
     [CHR 0xEA, CHR 0xB0, CHR 0x84, CHR 0xEA, CHR 0xB2, CHR 0xB0, CHR 0xED, CHR 0x95, CHR 0x98] @
     [CHR 0xEA, CHR 0xB2, CHR 0x8C] @ ''** '' @
     [CHR 0xEC, CHR 0xB6, CHR 0x94, CHR 0xEC, CHR 0xB2, CHR 0x9C, CHR 0xED, CHR 0x95, CHR 0x98] @
     [CHR 0xEC, CHR 0x84, CHR 0xB8, CHR 0xEC, CHR 0x9A, CHR 0x94] @ ''.'' @
     [CHR 0x0A] @ ''4. '' @
     [CHR 0xEB, CHR 0xA7, CHR 0x88, CHR 0xEC, CHR 0xA7, CHR 0x80, CHR 0xEB, CHR 0xA7, CHR 0x89] @
     [CHR 0xEC, CHR 0x97, CHR 0x90, CHR 0xEB, CHR 0x8A, CHR 0x94] @ '' '' @
     [CHR 0xEB, CHR 0xB0, CHR 0x98, CHR 0xEB, CHR 0x93, CHR 0x9C, CHR 0xEC, CHR 0x8B, CHR 0x9C] @
     '' '' @ [CHR 0xEB, CHR 0x8B, CHR 0xA4, CHR 0xEC, CHR 0x9D, CHR 0x8C] @ '' '' @
     [CHR 0xEB, CHR 0xA9, CHR 0x94, CHR 0xEC, CHR 0x8B, CHR 0x9C, CHR 0xEC, CHR 0xA7, CHR 0x80] @
     [CHR 0xEB, CHR 0xA5, CHR 0xBC] @ '' '' @
     [CHR 0xEC, CHR 0xB6, CHR 0x9C, CHR 0xEB, CHR 0xA0, CHR 0xA5, CHR 0xED, CHR 0x95, CHR 0x98] @
     [CHR 0xEC, CHR 0x84, CHR 0xB8, CHR 0xEC, CHR 0x9A, CHR 0x94] @ '': '' @
     [CHR 0x22, CHR 0xEC, CHR 0x98, CHR 0xA4, CHR 0xEB, CHR 0x8A, CHR 0x98, CHR 0xEC, CHR 0x9D] @
     [CHR 0x98] @ '' '' @
     [CHR 0xEB, CHR 0x8B, CHR 0xB9, CHR 0xEC, CHR 0x8B, CHR 0xA0, CHR 0xEC, CHR 0x97, CHR 0x90] @
     [CHR 0xEA, CHR 0xB2, CHR 0x8C] @ '' '' @
     [CHR 0xEB, CHR 0xA7, CHR 0x9E, CHR 0xEB, CHR 0x8A, CHR 0x94] @ '' '' @
     [CHR 0xEC, CHR 0x83, CHR 0x81, CHR 0xED, CHR 0x92, CHR 0x88, CHR 0xEC, CHR 0x9D, CHR 0x84] @
     '' '' @
     [CHR 0xEC, CHR 0xB6, CHR 0x94, CHR 0xEC, CHR 0xB2, CHR 0x9C, CHR 0xED, CHR 0x95, CHR 0xB4] @
     [CHR 0xEB, CHR 0x93, CHR 0x9C, CHR 0xEB, CHR 0xA6, CHR 0xB4] @ '' '' @
     [CHR 0xEC, CHR 0x88, CHR 0x98] @ '' '' @
     [CHR 0xEC, CHR 0x9E, CHR 0x88, CHR 0xEC, CHR 0x96, CHR 0xB4, CHR 0xEC, CHR 0x9A, CHR 0x94] @
     ''.'' @ [CHR 0x22, CHR 0xEB, CHR 0x9D, CHR 0xBC, CHR 0xEA, CHR 0xB3, CHR 0xA0] @
     '' '' @
     [CHR 0xEC, CHR 0xA0, CHR 0x95, CHR 0xEC, CHR 0xA4, CHR 0x91, CHR 0xED, CHR 0x9E, CHR 0x88] @
     '' '' @
     [CHR 0xEC, CHR 0x95, CHR 0x88, CHR 0xEB, CHR 0x82, CHR 0xB4, CHR 0xED, CHR 0x95, CHR 0x98] @
     [CHR 0xEC, CHR 0x84, CHR 0xB8, CHR 0xEC, CHR 0x9A, CHR 0x94] @ ''.'' @ [CHR 0x0A]"

definition RESTART_MESSAGE :: string where
  "RESTART_MESSAGE =
     [CHR 0xE2, CHR 0x9D, CHR 0x97, CHR 0xEF, CHR 0xB8, CHR 0x8F] @ '' API '' @
     [CHR 0xEC, CHR 0x9A, CHR 0x94, CHR 0xEC, CHR 0xB2, CHR 0xAD] @ '' '' @
     [CHR 0xEC, CHR 0x98, CHR 0xA4, CHR 0xEB, CHR 0xA5, CHR 0x98] @ ''(429 '' @
     [CHR 0xEB, CHR 0x93, CHR 0xB1] @ '')'' @ [CHR 0xEA, CHR 0xB0, CHR 0x80] @ '' '' @
     [CHR 0xEB, CHR 0xB0, CHR 0x9C, CHR 0xEC, CHR 0x83, CHR 0x9D, CHR 0xED, CHR 0x95, CHR 0x98] @
     [CHR 0xEC, CHR 0x97, CHR 0xAC] @ '' '' @
     [CHR 0xEC, CHR 0x9D, CHR 0xB4, CHR 0xEC, CHR 0xA0, CHR 0x84] @ '' 6'' @
     [CHR 0xED, CHR 0x84, CHR 0xB4, CHR 0xEC, CHR 0x9D, CHR 0x98] @ '' '' @
     [CHR 0xEB, CHR 0x8C, CHR 0x80, CHR 0xED, CHR 0x99, CHR 0x94, CHR 0xEB, CHR 0xA7, CHR 0x8C] @
     '' '' @
     [CHR 0xEC, CHR 0x9C, CHR 0xA0, CHR 0xEC, CHR 0xA7, CHR 0x80, CHR 0xED, CHR 0x95, CHR 0x98] @
     [CHR 0xEA, CHR 0xB3, CHR 0xA0] @ '' '' @
     [CHR 0xEC, CHR 0xB1, CHR 0x84, CHR 0xED, CHR 0x8C, CHR 0x85] @ '' '' @
     [CHR 0xEC, CHR 0x84, CHR 0xB8, CHR 0xEC, CHR 0x85, CHR 0x98, CHR 0xEC, CHR 0x9D, CHR 0x84] @
     '' '' @
     [CHR 0xEC, CHR 0x9E, CHR 0xAC, CHR 0xEC, CHR 0x8B, CHR 0x9C, CHR 0xEC, CHR 0x9E, CHR 0x91] @
     [CHR 0xED, CHR 0x95, CHR 0xA9, CHR 0xEB, CHR 0x8B, CHR 0x88, CHR 0xEB, CHR 0x8B, CHR 0xA4] @
     ''.''"

definition MAX_HISTORY_TURN :: nat where
  "MAX_HISTORY_TURN = 6"

definition AVAILABLE_MODELS :: "string list" where
  "AVAILABLE_MODELS =
     [''gemini-2.0-flash'', ''gemini-2.5-flash'', ''gemini-2.0-pro'', ''gemini-2.5-pro'']"

section \<open>Data\<close>

text \<open>An element of \<^verbatim>\<open>st.session_state.messages\<close>: a dict with the keys role and content.\<close>

record msg =
  role :: string
  content :: string

text \<open>An element of \<^verbatim>\<open>st.session_state.history_log\<close>, one row of the CSV export.\<close>

record log_entry =
  Timestamp :: string
  Role :: string
  Content :: string
  Model :: string

text \<open>
  The chat object \<^verbatim>\<open>client.chats.create\<close> returns, by the model name and the system
  instruction it was created with. The chat object of the SDK (\<^verbatim>\<open>google.genai\<close>) has
  no attribute \<^verbatim>\<open>history\<close>; what the SDK keeps inside the object is outside the script.
\<close>

record chat =
  model :: string
  system_instruction :: string

text \<open>
  \<^verbatim>\<open>st.session_state\<close>. The key \<^verbatim>\<open>gemini_chat\<close> may be absent (\<open>None\<close>); the other
  keys are set before they are read.
\<close>

record session_state =
  gemini_chat :: "chat option"
  messages :: "msg list"
  history_log :: "log_entry list"
  model_name :: string
  auto_log :: bool

text \<open>
  One chunk of the streamed response; \<^verbatim>\<open>chunk.text\<close> may be \<^verbatim>\<open>None\<close>. The call of
  \<^verbatim>\<open>send_message\<close> and the iteration over its result yield finitely many chunks and
  then end normally or raise: the quota error of the service, or anything else, given by
  its text.
\<close>

record chunk =
  chunk_text :: "string option"

datatype send_exception = Quota_exhausted | Other_exception string

datatype stream_end = Done | Raises send_exception

text \<open>
  How one execution of the script ends. \<^verbatim>\<open>st.rerun()\<close> and \<^verbatim>\<open>st.stop()\<close> raise
  control-flow exceptions of Streamlit that derive from \<^verbatim>\<open>BaseException\<close>, so no
  \<^verbatim>\<open>except Exception\<close> of the script catches them and nothing after the call runs. An
  exception that no handler of the script catches ends the execution as well: Streamlit
  reports it, and the session state stays as the script left it. Otherwise the script
  reaches its last line.
\<close>

datatype py_error = AttributeError

datatype script_end = Rerun | Stop | Finished | Uncaught py_error

text \<open>
  Everything one execution of the script reads from outside: the secret and the sidebar
  widgets, the chat input, whether the SDK manages to build the client and the chat,
  what the send does, and the clock readings of \<^verbatim>\<open>datetime.now()\<close> for the user entry
  and for the assistant or restart entry.
\<close>

record run_input =
  secret_key :: "string option"
  typed_key :: string
  selected_model :: string
  reset_button :: bool
  log_checkbox :: bool
  chat_prompt :: "string option"
  client_ok :: bool
  send_chunks :: "chunk list"
  send_end :: stream_end
  now_user :: string
  now_reply :: string

section \<open>The functions of the script\<close>

text \<open>\<^verbatim>\<open>get_api_key\<close>; \<open>None\<close> is the \<^verbatim>\<open>st.stop()\<close> of line 46.\<close>

definition get_api_key :: "string option \<Rightarrow> string \<Rightarrow> string option" where
  "get_api_key secret typed =
     (let api_key = (case secret of None \<Rightarrow> [] | Some k \<Rightarrow> k);
          api_key = (if api_key = [] then typed else api_key)
      in if api_key = [] then None else Some api_key)"

text \<open>
  The loop of lines 68 to 76. Its body builds the dict \<^verbatim>\<open>role_map\<close> and then evaluates
  \<^verbatim>\<open>chat.history.append\<close>, before any argument of the call. The chat object has no
  attribute \<^verbatim>\<open>history\<close>, so the first iteration raises \<^verbatim>\<open>AttributeError\<close>: no role is
  looked up and nothing is handed to the new session. Only the empty list gets through.
\<close>

fun restore_loop :: "msg list \<Rightarrow> py_error option" where
  "restore_loop [] = None"
| "restore_loop (m # ms) = Some AttributeError"

text \<open>
  \<^verbatim>\<open>initialize_client_and_chat\<close>. \<open>ok\<close> says whether \<^verbatim>\<open>genai.Client\<close> and
  \<^verbatim>\<open>client.chats.create\<close> return; every exception inside the \<^verbatim>\<open>try\<close>, that of the
  loop included, ends in \<^verbatim>\<open>st.error\<close> and \<^verbatim>\<open>st.stop()\<close> (lines 92 to 94), after
  lines 62 and 63 have stored the new chat and the model name. \<^verbatim>\<open>if history_to_restore\<close>
  is false for \<^verbatim>\<open>None\<close> and for the empty list, so lines 77 to 84 are behind a loop that
  has run at least once.
\<close>

definition initialize_client_and_chat ::
  "bool \<Rightarrow> string \<Rightarrow> string \<Rightarrow> string \<Rightarrow> msg list option \<Rightarrow> string \<Rightarrow> session_state
     \<Rightarrow> script_end \<times> session_state" where
  "initialize_client_and_chat ok api_key model_nm system_prompt history_to_restore now st =
     (if \<not> ok then (Stop, st)
      else
        let new_chat = \<lparr>model = model_nm, system_instruction = system_prompt\<rparr>;
            st = st\<lparr>gemini_chat := Some new_chat, model_name := model_nm\<rparr>
        in if history_to_restore \<noteq> None \<and> history_to_restore \<noteq> Some [] then
             (case restore_loop (the history_to_restore) of
                Some err \<Rightarrow> (Stop, st)
              | None \<Rightarrow>
                  (Rerun,
                   st\<lparr>messages := the history_to_restore
                                  @ [\<lparr>role = ''assistant'', content = RESTART_MESSAGE\<rparr>],
                      history_log := history_log st
                                  @ [\<lparr>Timestamp = now, Role = ''assistant'',
                                      Content = RESTART_MESSAGE, Model = model_name st\<rparr>]\<rparr>))
           else (Rerun, st\<lparr>messages := [], history_log := []\<rparr>))"

text \<open>The loop of lines 187 to 190 over the chunks that arrive.\<close>

fun accumulate :: "string \<Rightarrow> chunk list \<Rightarrow> string" where
  "accumulate full_response [] = full_response"
| "accumulate full_response (c # cs) =
     (case chunk_text c of
        None \<Rightarrow> accumulate full_response cs
      | Some t \<Rightarrow> if t \<noteq> [] then accumulate (full_response @ t) cs
                  else accumulate full_response cs)"

text \<open>Lines 207 to 220: record the model response, then \<^verbatim>\<open>st.rerun()\<close>.\<close>

definition record_response :: "string \<Rightarrow> string \<Rightarrow> session_state \<Rightarrow> script_end \<times> session_state" where
  "record_response full_response now st =
     (Rerun,
      if full_response \<noteq> [] \<and> full_response \<noteq> RESTART_MESSAGE then
        let st = st\<lparr>messages := messages st @ [\<lparr>role = ''assistant'', content = full_response\<rparr>]\<rparr>
        in if auto_log st then
             st\<lparr>history_log := history_log st
                  @ [\<lparr>Timestamp = now, Role = ''assistant'', Content = full_response,
                      Model = model_name st\<rparr>]\<rparr>
           else st
      else st)"

text \<open>
  Lines 162 to 220, the body of \<^verbatim>\<open>if prompt := st.chat_input(...)\<close> for a non-empty
  prompt. When the send raises, Python evaluates the expression of the first
  \<^verbatim>\<open>except\<close> clause, \<^verbatim>\<open>types.errors.ResourceExhaustedError\<close> (line 194), to match the
  exception against it. The module \<^verbatim>\<open>google.genai.types\<close> has no attribute
  \<^verbatim>\<open>errors\<close>, so the evaluation raises \<^verbatim>\<open>AttributeError\<close>; that exception leaves the
  \<^verbatim>\<open>try\<close> statement, whose second clause is not tried. So whatever the send raises,
  neither handler body (lines 195 to 205) runs, nor lines 207 to 220: the execution ends
  with the user turn and its log entry appended and nothing else.
\<close>

definition process_prompt :: "string \<Rightarrow> string \<Rightarrow> run_input \<Rightarrow> session_state \<Rightarrow> script_end \<times> session_state" where
  "process_prompt api_key prompt inp st =
     (let st = st\<lparr>messages := messages st @ [\<lparr>role = ''user'', content = prompt\<rparr>]\<rparr>;
          st = st\<lparr>history_log := history_log st
                 @ [\<lparr>Timestamp = now_user inp, Role = ''user'', Content = prompt,
                     Model = model_name st\<rparr>]\<rparr>
      in case send_end inp of
           Done \<Rightarrow> record_response (accumulate [] (send_chunks inp)) (now_reply inp) st
         | Raises exc \<Rightarrow> (Uncaught AttributeError, st))"

text \<open>One execution of the script, lines 97 to 220.\<close>

definition script_run :: "session_state \<Rightarrow> run_input \<Rightarrow> script_end \<times> session_state" where
  "script_run st inp =
     (let st = (if gemini_chat st = None
                then st\<lparr>messages := [], history_log := [], model_name := DEFAULT_MODEL\<rparr>
                else st)
      in case get_api_key (secret_key inp) (typed_key inp) of
           None \<Rightarrow> (Stop, st)
         | Some api_key \<Rightarrow>
             if reset_button inp then
               initialize_client_and_chat (client_ok inp) api_key (selected_model inp)
                 SYSTEM_PROMPT None (now_reply inp) st
             else
               let st = st\<lparr>auto_log := log_checkbox inp\<rparr>
               in if (gemini_chat st = None \<or> model_name st \<noteq> selected_model inp)
                     \<and> api_key \<noteq> [] then
                    initialize_client_and_chat (client_ok inp) api_key (selected_model inp)
                      SYSTEM_PROMPT None (now_reply inp) st
                  else
                    (case chat_prompt inp of
                       None \<Rightarrow> (Finished, st)
                     | Some prompt \<Rightarrow>
                         if prompt = [] then (Finished, st)
                         else process_prompt api_key prompt inp st))"

section \<open>Render cycles and runs\<close>

text \<open>
  After \<^verbatim>\<open>st.rerun()\<close> Streamlit executes the script once more with the widgets as they
  are: the button and the chat input report nothing the second time.
\<close>

definition rerun_input :: "run_input \<Rightarrow> run_input" where
  "rerun_input inp = inp\<lparr>reset_button := False, chat_prompt := None\<rparr>"

definition render_cycle :: "session_state \<Rightarrow> run_input \<Rightarrow> script_end \<times> session_state" where
  "render_cycle st inp =
     (case script_run st inp of
        (Rerun, st') \<Rightarrow> script_run st' (rerun_input inp)
      | r \<Rightarrow> r)"

text \<open>
  The session state of a new browser session, with the values lines 99 to 101 and 128
  give to the keys on the first execution, and the states a sequence of interactions
  leads to.
\<close>

definition initial_state :: session_state where
  "initial_state =
     \<lparr>gemini_chat = None, messages = [], history_log = [], model_name = DEFAULT_MODEL,
      auto_log = False\<rparr>"

fun run_all :: "session_state \<Rightarrow> run_input list \<Rightarrow> session_state" where
  "run_all st [] = st"
| "run_all st (inp # inps) = run_all (snd (render_cycle st inp)) inps"

section \<open>Notions the properties are stated with\<close>

definition user_turn :: "string \<Rightarrow> msg" where
  "user_turn p = \<lparr>role = ''user'', content = p\<rparr>"

definition assistant_turn :: "string \<Rightarrow> msg" where
  "assistant_turn r = \<lparr>role = ''assistant'', content = r\<rparr>"

definition restart_notice :: msg where
  "restart_notice = assistant_turn RESTART_MESSAGE"

definition log_of :: "string \<Rightarrow> string \<Rightarrow> msg \<Rightarrow> log_entry" where
  "log_of t m x = \<lparr>Timestamp = t, Role = role x, Content = content x, Model = m\<rparr>"


definition is_restart_entry :: "log_entry \<Rightarrow> bool" where
  "is_restart_entry e = (Role e = ''assistant'' \<and> Content e = RESTART_MESSAGE)"

text \<open>The script gets as far as line 162 and finds a prompt there.\<close>

definition reaches_prompt :: "session_state \<Rightarrow> run_input \<Rightarrow> bool" where
  "reaches_prompt st inp =
     (get_api_key (secret_key inp) (typed_key inp) \<noteq> None \<and> \<not> reset_button inp \<and>
      gemini_chat st \<noteq> None \<and> model_name st = selected_model inp \<and>
      chat_prompt inp \<noteq> None \<and> chat_prompt inp \<noteq> Some [])"

text \<open>
  The reply the execution records: the accumulated text of a stream that ends normally,
  unless it is empty or the restart notice.
\<close>

definition recorded_reply :: "run_input \<Rightarrow> string option" where
  "recorded_reply inp =
     (case send_end inp of
        Done \<Rightarrow>
          if accumulate [] (send_chunks inp) \<noteq> [] \<and>
             accumulate [] (send_chunks inp) \<noteq> RESTART_MESSAGE
          then Some (accumulate [] (send_chunks inp)) else None
      | Raises exc \<Rightarrow> None)"

text \<open>A transcript made of user/assistant pairs.\<close>

fun paired :: "msg list \<Rightarrow> bool" where
  "paired [] = True"
| "paired [u] = False"
| "paired (u # a # ms) = (role u = ''user'' \<and> role a = ''assistant'' \<and> paired ms)"

text \<open>The send of this execution, if there is one, yields a reply that is recorded.\<close>

definition answered :: "run_input \<Rightarrow> bool" where
  "answered inp =
     (chat_prompt inp = None \<or> chat_prompt inp = Some [] \<or> recorded_reply inp \<noteq> None)"

section \<open>Example data\<close>

definition exchange :: "string \<Rightarrow> string \<Rightarrow> msg list" where
  "exchange q a = [user_turn q, assistant_turn a]"

definition demo_chat :: chat where
  "demo_chat = \<lparr>model = DEFAULT_MODEL, system_instruction = SYSTEM_PROMPT\<rparr>"

definition demo_input :: run_input where
  "demo_input =
     \<lparr>secret_key = Some ''key'', typed_key = [], selected_model = DEFAULT_MODEL,
      reset_button = False, log_checkbox = False, chat_prompt = None, client_ok = True,
      send_chunks = [], send_end = Done, now_user = ''t1'', now_reply = ''t2''\<rparr>"

text \<open>A session that has a chat and no turns yet.\<close>

definition fresh_state :: session_state where
  "fresh_state =
     \<lparr>gemini_chat = Some demo_chat, messages = [], history_log = [],
      model_name = DEFAULT_MODEL, auto_log = False\<rparr>"

text \<open>Seven completed pairs, logged with the toggle on.\<close>

definition seven_pairs :: "msg list" where
  "seven_pairs =
     exchange ''q1'' ''a1'' @ exchange ''q2'' ''a2'' @ exchange ''q3'' ''a3'' @
     exchange ''q4'' ''a4'' @ exchange ''q5'' ''a5'' @ exchange ''q6'' ''a6'' @
     exchange ''q7'' ''a7''"

definition seven_pairs_state :: session_state where
  "seven_pairs_state =
     \<lparr>gemini_chat = Some demo_chat, messages = seven_pairs,
      history_log = map (log_of ''t0'' DEFAULT_MODEL) seven_pairs,
      model_name = DEFAULT_MODEL, auto_log = True\<rparr>"

text \<open>The eighth prompt, whose send raises the quota error.\<close>

definition quota_input :: run_input where
  "quota_input =
     demo_input\<lparr>log_checkbox := True, chat_prompt := Some ''q8'',
                send_end := Raises Quota_exhausted\<rparr>"

section \<open>Auxiliary facts\<close>

subsection \<open>Streaming and string constants\<close>

text \<open>
  The accumulated reply is the concatenation of the chunk texts; it is empty exactly
  when every chunk text is empty or missing.
\<close>

lemma accumulate_acc: "accumulate acc cs = acc @ accumulate [] cs"
proof (induction cs arbitrary: acc)
  case Nil
  show ?case by simp
next
  case (Cons c cs)
  show ?case
  proof (cases "chunk_text c")
    case None
    then show ?thesis using Cons.IH[of acc] by simp
  next
    case (Some t)
    have a: "accumulate (acc @ t) cs = (acc @ t) @ accumulate [] cs" by (rule Cons.IH)
    have b: "accumulate t cs = t @ accumulate [] cs" by (rule Cons.IH)
    show ?thesis
    proof (cases "t = []")
      case True
      then show ?thesis using Some Cons.IH[of acc] by simp
    next
      case False
      then show ?thesis using Some a b by simp
    qed
  qed
qed

lemma accumulate_empty_iff:
  "accumulate [] cs = [] \<longleftrightarrow>
     (\<forall>c \<in> set cs. chunk_text c = None \<or> chunk_text c = Some [])"
proof (induction cs)
  case Nil
  show ?case by simp
next
  case (Cons c cs)
  show ?case
  proof (cases "chunk_text c")
    case None
    then show ?thesis using Cons.IH by simp
  next
    case (Some t)
    have "accumulate t cs = t @ accumulate [] cs" by (rule accumulate_acc)
    then show ?thesis using Some Cons.IH by (cases "t = []") simp_all
  qed
qed

lemma hi_not_restart: "''hi'' \<noteq> RESTART_MESSAGE"
  by (simp add: RESTART_MESSAGE_def)

subsection \<open>Creating the session\<close>

text \<open>The three ways \<open>initialize_client_and_chat\<close> ends.\<close>

lemma initialize_reset:
  "initialize_client_and_chat True k m sp None now st =
     (Rerun, st\<lparr>gemini_chat := Some \<lparr>model = m, system_instruction = sp\<rparr>,
                model_name := m, messages := [], history_log := []\<rparr>)"
  by (simp add: initialize_client_and_chat_def Let_def)

lemma initialize_failed:
  "initialize_client_and_chat False k m sp h now st = (Stop, st)"
  by (simp add: initialize_client_and_chat_def)

lemma initialize_restore_stops:
  assumes "h \<noteq> []"
  shows "initialize_client_and_chat True k m sp (Some h) now st =
     (Stop, st\<lparr>gemini_chat := Some \<lparr>model = m, system_instruction = sp\<rparr>, model_name := m\<rparr>)"
proof -
  from assms obtain x xs where "h = x # xs" by (cases h) auto
  then show ?thesis by (simp add: initialize_client_and_chat_def Let_def)
qed

lemma initialize_reset_lists:
  "(messages (snd (initialize_client_and_chat ok k m sp None now st)) = [] \<and>
    history_log (snd (initialize_client_and_chat ok k m sp None now st)) = []) \<or>
   (messages (snd (initialize_client_and_chat ok k m sp None now st)) = messages st \<and>
    history_log (snd (initialize_client_and_chat ok k m sp None now st)) = history_log st)"
  by (cases ok) (simp_all add: initialize_reset initialize_failed)

subsection \<open>Recording the reply\<close>

lemma record_response_skip:
  "r = [] \<or> r = RESTART_MESSAGE \<Longrightarrow> record_response r now st = (Rerun, st)"
  by (auto simp: record_response_def)

lemma record_response_append:
  assumes "r \<noteq> []" and "r \<noteq> RESTART_MESSAGE"
  shows "record_response r now st =
           (Rerun,
            st\<lparr>messages := messages st @ [assistant_turn r],
               history_log := history_log st
                 @ (if auto_log st then [log_of now (model_name st) (assistant_turn r)] else [])\<rparr>)"
  using assms by (simp add: record_response_def Let_def assistant_turn_def log_of_def)


subsection \<open>Processing a prompt\<close>

lemma process_prompt_done:
  assumes "send_end inp = Done"
  shows "process_prompt k p inp st =
           record_response (accumulate [] (send_chunks inp)) (now_reply inp)
             (st\<lparr>messages := messages st @ [user_turn p],
                 history_log := history_log st
                   @ [log_of (now_user inp) (model_name st) (user_turn p)]\<rparr>)"
  using assms by (simp add: process_prompt_def Let_def user_turn_def log_of_def)

lemma process_prompt_raises:
  assumes "send_end inp = Raises exc"
  shows "process_prompt k p inp st =
           (Uncaught AttributeError,
            st\<lparr>messages := messages st @ [user_turn p],
               history_log := history_log st
                 @ [log_of (now_user inp) (model_name st) (user_turn p)]\<rparr>)"
  using assms by (simp add: process_prompt_def Let_def user_turn_def log_of_def)

text \<open>What processing a prompt leaves behind, for every outcome of the send.\<close>

lemma process_prompt_result:
  "process_prompt k p inp st =
     (case send_end inp of Done \<Rightarrow> Rerun | Raises exc \<Rightarrow> Uncaught AttributeError,
      st\<lparr>messages := messages st @ [user_turn p]
            @ (case recorded_reply inp of None \<Rightarrow> [] | Some r \<Rightarrow> [assistant_turn r]),
         history_log := history_log st
            @ [log_of (now_user inp) (model_name st) (user_turn p)]
            @ (case recorded_reply inp of
                 None \<Rightarrow> []
               | Some r \<Rightarrow>
                   if auto_log st
                   then [log_of (now_reply inp) (model_name st) (assistant_turn r)]
                   else [])\<rparr>)"
proof (cases "send_end inp")
  case Done
  let ?r = "accumulate [] (send_chunks inp)"
  show ?thesis
  proof (cases "?r \<noteq> [] \<and> ?r \<noteq> RESTART_MESSAGE")
    case True
    then have a: "?r \<noteq> []" and b: "?r \<noteq> RESTART_MESSAGE" by simp_all
    have "recorded_reply inp = Some ?r" using Done True by (simp add: recorded_reply_def)
    then show ?thesis
      using Done by (simp add: process_prompt_done[OF Done] record_response_append[OF a b])
  next
    case False
    then have s: "?r = [] \<or> ?r = RESTART_MESSAGE" by blast
    have "recorded_reply inp = None" using Done False by (simp add: recorded_reply_def)
    then show ?thesis
      using Done by (simp add: process_prompt_done[OF Done] record_response_skip[OF s])
  qed
next
  case (Raises exc)
  have "recorded_reply inp = None" using Raises by (simp add: recorded_reply_def)
  then show ?thesis
    using Raises by (simp add: process_prompt_raises[OF Raises])
qed

subsection \<open>One execution of the script\<close>

lemma script_run_prompt:
  assumes "reaches_prompt st inp" and "chat_prompt inp = Some p"
  shows "\<exists>k. script_run st inp = process_prompt k p inp (st\<lparr>auto_log := log_checkbox inp\<rparr>)"
  using assms by (auto simp: reaches_prompt_def script_run_def Let_def)

lemma script_run_result:
  assumes "reaches_prompt st inp" and "chat_prompt inp = Some p"
  shows "script_run st inp =
     (case send_end inp of Done \<Rightarrow> Rerun | Raises exc \<Rightarrow> Uncaught AttributeError,
      st\<lparr>auto_log := log_checkbox inp,
         messages := messages st @ [user_turn p]
            @ (case recorded_reply inp of None \<Rightarrow> [] | Some r \<Rightarrow> [assistant_turn r]),
         history_log := history_log st
            @ [log_of (now_user inp) (model_name st) (user_turn p)]
            @ (case recorded_reply inp of
                 None \<Rightarrow> []
               | Some r \<Rightarrow>
                   if log_checkbox inp
                   then [log_of (now_reply inp) (model_name st) (assistant_turn r)]
                   else [])\<rparr>)"
proof -
  obtain k where "script_run st inp = process_prompt k p inp (st\<lparr>auto_log := log_checkbox inp\<rparr>)"
    using script_run_prompt[OF assms] by blast
  then show ?thesis
    by (cases "recorded_reply inp") (simp_all add: process_prompt_result)
qed

lemma reaches_prompt_checkbox:
  "reaches_prompt st (inp\<lparr>log_checkbox := b\<rparr>) = reaches_prompt st inp"
  by (simp add: reaches_prompt_def)

lemma rerun_not_reaching: "\<not> reaches_prompt st (rerun_input inp)"
  by (simp add: reaches_prompt_def rerun_input_def)

lemma script_run_reinitialize:
  assumes "get_api_key (secret_key inp) (typed_key inp) \<noteq> None" and "client_ok inp"
    and "reset_button inp \<or> gemini_chat st = None \<or> model_name st \<noteq> selected_model inp"
  shows "fst (script_run st inp) = Rerun \<and>
         messages (snd (script_run st inp)) = [] \<and>
         history_log (snd (script_run st inp)) = [] \<and>
         model_name (snd (script_run st inp)) = selected_model inp \<and>
         gemini_chat (snd (script_run st inp)) =
           Some \<lparr>model = selected_model inp, system_instruction = SYSTEM_PROMPT\<rparr>"
proof -
  from assms(1) obtain k where k: "get_api_key (secret_key inp) (typed_key inp) = Some k"
    by blast
  then have ne: "k \<noteq> []"
    by (auto simp: get_api_key_def Let_def split: if_splits)
  show ?thesis
  proof (cases "reset_button inp")
    case True
    then show ?thesis
      using k assms(2) by (simp add: script_run_def Let_def initialize_reset)
  next
    case False
    with assms(3) have "gemini_chat st = None \<or> model_name st \<noteq> selected_model inp"
      by blast
    then show ?thesis
      using False k ne assms(2)
      by (auto simp: script_run_def Let_def initialize_reset)
  qed
qed

lemma script_run_idle:
  assumes "get_api_key (secret_key inp) (typed_key inp) \<noteq> None"
    and "gemini_chat st \<noteq> None" and "model_name st = selected_model inp"
  shows "script_run st (rerun_input inp) = (Finished, st\<lparr>auto_log := log_checkbox inp\<rparr>)"
  using assms by (auto simp: script_run_def rerun_input_def Let_def)

lemma script_run_without_prompt:
  assumes "\<not> reaches_prompt st inp"
  shows "(messages (snd (script_run st inp)) = [] \<and> history_log (snd (script_run st inp)) = []) \<or>
         (messages (snd (script_run st inp)) = messages st \<and>
          history_log (snd (script_run st inp)) = history_log st)"
proof (cases "get_api_key (secret_key inp) (typed_key inp)")
  case None
  then show ?thesis by (simp add: script_run_def Let_def)
next
  case (Some k)
  let ?st0 = "if gemini_chat st = None
              then st\<lparr>messages := [], history_log := [], model_name := DEFAULT_MODEL\<rparr> else st"
  have st0: "(messages ?st0 = [] \<and> history_log ?st0 = []) \<or>
             (messages ?st0 = messages st \<and> history_log ?st0 = history_log st)" by simp
  show ?thesis
  proof (cases "reset_button inp")
    case True
    have "script_run st inp =
            initialize_client_and_chat (client_ok inp) k (selected_model inp) SYSTEM_PROMPT None
              (now_reply inp) ?st0"
      using True Some by (simp add: script_run_def Let_def)
    then show ?thesis
      using initialize_reset_lists[of "client_ok inp" k "selected_model inp" SYSTEM_PROMPT
          "now_reply inp" ?st0] st0
      by auto
  next
    case False
    let ?st1 = "?st0\<lparr>auto_log := log_checkbox inp\<rparr>"
    have st1: "(messages ?st1 = [] \<and> history_log ?st1 = []) \<or>
             (messages ?st1 = messages st \<and> history_log ?st1 = history_log st)" by simp
    show ?thesis
    proof (cases "(gemini_chat ?st1 = None \<or> model_name ?st1 \<noteq> selected_model inp) \<and> k \<noteq> []")
      case True
      have "script_run st inp =
            initialize_client_and_chat (client_ok inp) k (selected_model inp) SYSTEM_PROMPT None
              (now_reply inp) ?st1"
        using True False Some by (simp add: script_run_def Let_def)
      then show ?thesis
        using initialize_reset_lists[of "client_ok inp" k "selected_model inp" SYSTEM_PROMPT
            "now_reply inp" ?st1] st1
        by auto
    next
      case noinit: False
      have k: "k \<noteq> []" using Some by (auto simp: get_api_key_def Let_def split: if_splits)
      with noinit have c: "gemini_chat st \<noteq> None" and m: "model_name st = selected_model inp"
        by (auto split: if_splits)
      with assms Some False have "chat_prompt inp = None \<or> chat_prompt inp = Some []"
        by (simp add: reaches_prompt_def)
      then have "script_run st inp = (Finished, ?st1)"
        using noinit False Some by (auto simp: script_run_def Let_def)
      then show ?thesis using c by simp
    qed
  qed
qed

subsection \<open>Transcripts made of pairs\<close>

lemma paired_append: "paired xs \<Longrightarrow> paired ys \<Longrightarrow> paired (xs @ ys)"
  by (induction xs rule: paired.induct) simp_all

lemma paired_even: "paired xs \<Longrightarrow> even (length xs)"
  by (induction xs rule: paired.induct) simp_all

lemma paired_exchange: "paired [user_turn p, assistant_turn r]"
  by (simp add: user_turn_def assistant_turn_def)

lemma script_run_answered_paired:
  assumes "paired (messages st)" and "answered inp"
  shows "paired (messages (snd (script_run st inp)))"
proof (cases "reaches_prompt st inp")
  case False
  from script_run_without_prompt[OF False] assms(1) show ?thesis by auto
next
  case True
  then obtain p where p: "chat_prompt inp = Some p" and pne: "p \<noteq> []"
    by (auto simp: reaches_prompt_def)
  with assms(2) obtain r where r: "recorded_reply inp = Some r"
    by (auto simp: answered_def)
  have "paired (messages st @ [user_turn p, assistant_turn r])"
    by (rule paired_append[OF assms(1) paired_exchange])
  then show ?thesis
    by (simp add: script_run_result[OF True p] r)
qed

lemma render_cycle_answered_paired:
  assumes "paired (messages st)" and "answered inp"
  shows "paired (messages (snd (render_cycle st inp)))"
proof -
  obtain e st' where run: "script_run st inp = (e, st')" by (cases "script_run st inp")
  have p': "paired (messages st')"
    using script_run_answered_paired[OF assms] run by simp
  show ?thesis
  proof (cases e)
    case Rerun
    have "paired (messages (snd (script_run st' (rerun_input inp))))"
      using script_run_without_prompt[OF rerun_not_reaching, of st' inp] p' by auto
    then show ?thesis by (simp add: render_cycle_def run Rerun)
  next
    case Stop
    then show ?thesis using p' by (simp add: render_cycle_def run)
  next
    case Finished
    then show ?thesis using p' by (simp add: render_cycle_def run)
  next
    case (Uncaught err)
    then show ?thesis using p' by (simp add: render_cycle_def run)
  qed
qed

lemma run_all_answered_paired:
  "paired (messages st) \<Longrightarrow> list_all answered inps \<Longrightarrow> paired (messages (run_all st inps))"
proof (induction inps arbitrary: st)
  case Nil
  then show ?case by simp
next
  case (Cons inp inps)
  from Cons.prems have a: "answered inp" and rest: "list_all answered inps" by simp_all
  have "paired (messages (snd (render_cycle st inp)))"
    by (rule render_cycle_answered_paired[OF Cons.prems(1) a])
  from Cons.IH[OF this rest] show ?case by simp
qed

subsection \<open>The examples\<close>

lemma quota_input_reaches: "reaches_prompt seven_pairs_state quota_input"
  by (simp add: reaches_prompt_def seven_pairs_state_def quota_input_def demo_input_def
      get_api_key_def)

lemma seven_pairs_quota:
  "script_run seven_pairs_state (quota_input\<lparr>log_checkbox := b\<rparr>) =
     (Uncaught AttributeError,
      seven_pairs_state\<lparr>auto_log := b,
         messages := seven_pairs @ [user_turn ''q8''],
         history_log := map (log_of ''t0'' DEFAULT_MODEL) seven_pairs
                     @ [log_of ''t1'' DEFAULT_MODEL (user_turn ''q8'')]\<rparr>)"
proof -
  let ?inp = "quota_input\<lparr>log_checkbox := b\<rparr>"
  have r: "reaches_prompt seven_pairs_state ?inp"
    using quota_input_reaches by (simp add: reaches_prompt_checkbox)
  have p: "chat_prompt ?inp = Some ''q8''" by (simp add: quota_input_def)
  have n: "recorded_reply ?inp = None" by (simp add: recorded_reply_def quota_input_def)
  show ?thesis
    using n
    by (simp add: script_run_result[OF r p])
       (simp add: seven_pairs_state_def quota_input_def demo_input_def)
qed

lemma seven_pairs_quota_on:
  "script_run seven_pairs_state quota_input =
     (Uncaught AttributeError,
      seven_pairs_state\<lparr>auto_log := True,
         messages := seven_pairs @ [user_turn ''q8''],
         history_log := map (log_of ''t0'' DEFAULT_MODEL) seven_pairs
                     @ [log_of ''t1'' DEFAULT_MODEL (user_turn ''q8'')]\<rparr>)"
proof -
  have "quota_input\<lparr>log_checkbox := True\<rparr> = quota_input" by (simp add: quota_input_def)
  with seven_pairs_quota[of True] show ?thesis by simp
qed

lemma first_visit:
  "render_cycle initial_state demo_input = (Finished, fresh_state)"
  by (simp add: render_cycle_def script_run_def initial_state_def demo_input_def
      get_api_key_def initialize_client_and_chat_def rerun_input_def Let_def
      fresh_state_def demo_chat_def)

lemma hello_unanswered:
  "render_cycle fresh_state (demo_input\<lparr>chat_prompt := Some ''hello''\<rparr>) =
     (Finished,
      fresh_state\<lparr>messages := [user_turn ''hello''],
                  history_log := [log_of ''t1'' DEFAULT_MODEL (user_turn ''hello'')]\<rparr>)"
  by (simp add: render_cycle_def script_run_def demo_input_def
      get_api_key_def rerun_input_def Let_def process_prompt_def record_response_def
      fresh_state_def demo_chat_def user_turn_def log_of_def)

lemma two_answered_turns:
  "messages (run_all initial_state
     [demo_input,
      demo_input\<lparr>chat_prompt := Some ''hello'', send_chunks := [\<lparr>chunk_text = Some ''hi''\<rparr>]\<rparr>,
      demo_input\<lparr>chat_prompt := Some ''again'', send_chunks := [\<lparr>chunk_text = Some ''hi''\<rparr>]\<rparr>]) =
   [user_turn ''hello'', assistant_turn ''hi'', user_turn ''again'', assistant_turn ''hi'']"
proof -
  have s1: "render_cycle fresh_state
      (demo_input\<lparr>chat_prompt := Some ''hello'', send_chunks := [\<lparr>chunk_text = Some ''hi''\<rparr>]\<rparr>) =
     (Finished,
      fresh_state\<lparr>messages := [user_turn ''hello'', assistant_turn ''hi''],
                  history_log := [log_of ''t1'' DEFAULT_MODEL (user_turn ''hello'')]\<rparr>)"
    by (simp add: render_cycle_def script_run_def demo_input_def
        get_api_key_def rerun_input_def Let_def process_prompt_def record_response_def
        fresh_state_def demo_chat_def user_turn_def assistant_turn_def log_of_def
        hi_not_restart)
  have s2: "messages (snd (render_cycle
      (fresh_state\<lparr>messages := [user_turn ''hello'', assistant_turn ''hi''],
                  history_log := [log_of ''t1'' DEFAULT_MODEL (user_turn ''hello'')]\<rparr>)
      (demo_input\<lparr>chat_prompt := Some ''again'', send_chunks := [\<lparr>chunk_text = Some ''hi''\<rparr>]\<rparr>))) =
     [user_turn ''hello'', assistant_turn ''hi'', user_turn ''again'', assistant_turn ''hi'']"
    by (simp add: render_cycle_def script_run_def demo_input_def
        get_api_key_def rerun_input_def Let_def process_prompt_def record_response_def
        fresh_state_def demo_chat_def user_turn_def assistant_turn_def log_of_def
        hi_not_restart)
  show ?thesis by (simp add: first_visit s1 s2)
qed

section \<open>The properties\<close>

text \<open>
  C1. The recovery never starts. With seven completed pairs and an eighth prompt whose
  send raises the quota error, the execution ends at the \<^verbatim>\<open>except\<close> clause of line 194
  with an uncaught \<^verbatim>\<open>AttributeError\<close>: the transcript is all seven pairs followed by the
  pending user turn, fifteen entries, and not the six most recent pairs followed by the
  restart notice.
\<close>

theorem quota_error_restores_no_window:
  "fst (script_run seven_pairs_state quota_input) = Uncaught AttributeError \<and>
   messages (snd (script_run seven_pairs_state quota_input)) =
     seven_pairs @ [user_turn ''q8''] \<and>
   length (messages (snd (script_run seven_pairs_state quota_input))) = 15 \<and>
   messages (snd (script_run seven_pairs_state quota_input)) \<noteq>
     exchange ''q2'' ''a2'' @ exchange ''q3'' ''a3'' @ exchange ''q4'' ''a4'' @
     exchange ''q5'' ''a5'' @ exchange ''q6'' ''a6'' @ exchange ''q7'' ''a7'' @
     [restart_notice]"
  unfolding seven_pairs_quota_on
  by (simp add: seven_pairs_def exchange_def)

text \<open>
  C2. After the same quota error the log is the whole log from before followed by the
  entry of the pending user turn: fifteen entries, the oldest still the first. Nothing
  is cut to the size of the window.
\<close>

theorem quota_error_keeps_whole_log:
  "history_log (snd (script_run seven_pairs_state quota_input)) =
     history_log seven_pairs_state @ [log_of ''t1'' DEFAULT_MODEL (user_turn ''q8'')] \<and>
   length (history_log (snd (script_run seven_pairs_state quota_input))) = 15 \<and>
   hd (history_log (snd (script_run seven_pairs_state quota_input))) =
     log_of ''t0'' DEFAULT_MODEL (user_turn ''q1'') \<and>
   MAX_HISTORY_TURN * 2 < length (history_log (snd (script_run seven_pairs_state quota_input)))"
  unfolding seven_pairs_quota_on
  by (simp add: seven_pairs_state_def seven_pairs_def exchange_def MAX_HISTORY_TURN_def)

text \<open>
  C3, as the code has it. Starting from a new browser session, as long as every send
  ends normally with a text that is neither empty nor the restart notice, the transcript
  after every render cycle is a sequence of user/assistant pairs, and so its length is
  even. Resets, model changes and executions that stop early are covered.
\<close>

theorem answered_turns_keep_transcript_paired:
  assumes "list_all answered inps"
  shows "paired (messages (run_all initial_state inps)) \<and>
         even (length (messages (run_all initial_state inps)))"
proof -
  have "paired (messages initial_state)" by (simp add: initial_state_def)
  from run_all_answered_paired[OF this assms] paired_even show ?thesis by blast
qed

theorem answered_turns_keep_transcript_paired_witness:
  "list_all answered
     [demo_input,
      demo_input\<lparr>chat_prompt := Some ''hello'', send_chunks := [\<lparr>chunk_text = Some ''hi''\<rparr>]\<rparr>,
      demo_input\<lparr>chat_prompt := Some ''again'', send_chunks := [\<lparr>chunk_text = Some ''hi''\<rparr>]\<rparr>] \<and>
   paired (messages (run_all initial_state
     [demo_input,
      demo_input\<lparr>chat_prompt := Some ''hello'', send_chunks := [\<lparr>chunk_text = Some ''hi''\<rparr>]\<rparr>,
      demo_input\<lparr>chat_prompt := Some ''again'', send_chunks := [\<lparr>chunk_text = Some ''hi''\<rparr>]\<rparr>])) \<and>
   even (length (messages (run_all initial_state
     [demo_input,
      demo_input\<lparr>chat_prompt := Some ''hello'', send_chunks := [\<lparr>chunk_text = Some ''hi''\<rparr>]\<rparr>,
      demo_input\<lparr>chat_prompt := Some ''again'', send_chunks := [\<lparr>chunk_text = Some ''hi''\<rparr>]\<rparr>]))) \<and>
   messages (run_all initial_state
     [demo_input,
      demo_input\<lparr>chat_prompt := Some ''hello'', send_chunks := [\<lparr>chunk_text = Some ''hi''\<rparr>]\<rparr>,
      demo_input\<lparr>chat_prompt := Some ''again'', send_chunks := [\<lparr>chunk_text = Some ''hi''\<rparr>]\<rparr>]) =
     [user_turn ''hello'', assistant_turn ''hi'', user_turn ''again'', assistant_turn ''hi'']"
proof -
  let ?inps = "[demo_input,
      demo_input\<lparr>chat_prompt := Some ''hello'', send_chunks := [\<lparr>chunk_text = Some ''hi''\<rparr>]\<rparr>,
      demo_input\<lparr>chat_prompt := Some ''again'', send_chunks := [\<lparr>chunk_text = Some ''hi''\<rparr>]\<rparr>]"
  have a: "list_all answered ?inps"
    by (simp add: answered_def recorded_reply_def demo_input_def hi_not_restart)
  from answered_turns_keep_transcript_paired[OF a] a two_answered_turns
  show ?thesis by blast
qed

text \<open>
  C3 as stated fails: the guard of line 208 records no assistant turn for an empty
  reply. After the first visit and one prompt whose stream yields no text, the render
  cycle has finished and the transcript holds the user turn alone, so its length is odd
  after a completed turn.
\<close>

theorem empty_reply_leaves_odd_transcript:
  "messages (run_all initial_state [demo_input, demo_input\<lparr>chat_prompt := Some ''hello''\<rparr>]) =
     [user_turn ''hello''] \<and>
   odd (length (messages
     (run_all initial_state [demo_input, demo_input\<lparr>chat_prompt := Some ''hello''\<rparr>]))) \<and>
   fst (render_cycle (run_all initial_state [demo_input])
     (demo_input\<lparr>chat_prompt := Some ''hello''\<rparr>)) = Finished"
  by (simp add: first_visit hello_unanswered)

text \<open>
  C4. A quota error leaves no restart notice in the log. The execution ends at the
  \<^verbatim>\<open>except\<close> clause of line 194 before the recovery is entered, so after the eighth
  prompt the log holds no notice entry, with the logging toggle on and with it off.
\<close>

theorem quota_error_logs_no_notice:
  "fst (script_run seven_pairs_state quota_input) = Uncaught AttributeError \<and>
   filter is_restart_entry
     (history_log (snd (script_run seven_pairs_state quota_input))) = [] \<and>
   filter is_restart_entry
     (history_log (snd (script_run seven_pairs_state (quota_input\<lparr>log_checkbox := False\<rparr>))))
     = []"
  unfolding seven_pairs_quota_on seven_pairs_quota
  by (simp add: seven_pairs_def exchange_def is_restart_entry_def log_of_def user_turn_def
      assistant_turn_def RESTART_MESSAGE_def)

text \<open>
  C5. When the model selected in the sidebar differs from the model name of the session
  state, an API key is available and the new session can be created, the execution
  re-initializes without a history to restore and ends in a rerun with the transcript and
  the log empty; the rerun that follows finishes with both still empty and the selected
  model as the model of the session.
\<close>

theorem model_change_clears_transcript_and_log:
  assumes "get_api_key (secret_key inp) (typed_key inp) \<noteq> None" and "client_ok inp"
    and "model_name st \<noteq> selected_model inp"
  shows "fst (script_run st inp) = Rerun \<and>
         messages (snd (script_run st inp)) = [] \<and>
         history_log (snd (script_run st inp)) = [] \<and>
         fst (render_cycle st inp) = Finished \<and>
         messages (snd (render_cycle st inp)) = [] \<and>
         history_log (snd (render_cycle st inp)) = [] \<and>
         model_name (snd (render_cycle st inp)) = selected_model inp"
proof -
  obtain e st' where run: "script_run st inp = (e, st')" by (cases "script_run st inp")
  have r: "e = Rerun \<and> messages st' = [] \<and> history_log st' = [] \<and>
           model_name st' = selected_model inp \<and> gemini_chat st' \<noteq> None"
    using script_run_reinitialize[OF assms(1,2), of st] assms(3) run by simp
  then have idle: "script_run st' (rerun_input inp) = (Finished, st'\<lparr>auto_log := log_checkbox inp\<rparr>)"
    using script_run_idle[OF assms(1), of st'] by blast
  have "render_cycle st inp = (Finished, st'\<lparr>auto_log := log_checkbox inp\<rparr>)"
    using r by (simp add: render_cycle_def run idle)
  then show ?thesis using r run by simp
qed

theorem model_change_clears_transcript_and_log_witness:
  "model_name seven_pairs_state \<noteq> ''gemini-2.5-pro'' \<and>
   length (messages seven_pairs_state) = 14 \<and>
   messages (snd (render_cycle seven_pairs_state
     (demo_input\<lparr>selected_model := ''gemini-2.5-pro''\<rparr>))) = [] \<and>
   history_log (snd (render_cycle seven_pairs_state
     (demo_input\<lparr>selected_model := ''gemini-2.5-pro''\<rparr>))) = [] \<and>
   model_name (snd (render_cycle seven_pairs_state
     (demo_input\<lparr>selected_model := ''gemini-2.5-pro''\<rparr>))) = ''gemini-2.5-pro''"
proof -
  let ?inp = "demo_input\<lparr>selected_model := ''gemini-2.5-pro''\<rparr>"
  have k: "get_api_key (secret_key ?inp) (typed_key ?inp) \<noteq> None"
    by (simp add: demo_input_def get_api_key_def)
  have c: "client_ok ?inp" by (simp add: demo_input_def)
  have m: "model_name seven_pairs_state \<noteq> selected_model ?inp"
    by (simp add: seven_pairs_state_def DEFAULT_MODEL_def)
  have l: "length (messages seven_pairs_state) = 14"
    by (simp add: seven_pairs_state_def seven_pairs_def exchange_def)
  show ?thesis
    using model_change_clears_transcript_and_log[OF k c m] m l by simp
qed

text \<open>
  C6. The replay hands nothing to the new session. Called with one user/assistant pair
  to restore, \<open>initialize_client_and_chat\<close> stores the new chat and the model name, fails
  in the first iteration of the loop and stops: no turn is replayed, and the transcript
  is neither replaced by the pair nor extended by the notice.
\<close>

theorem replay_hands_over_nothing:
  "restore_loop (exchange ''q1'' ''a1'') = Some AttributeError \<and>
   initialize_client_and_chat True ''key'' ''gemini-2.5-pro'' SYSTEM_PROMPT
       (Some (exchange ''q1'' ''a1'')) ''t2'' fresh_state =
     (Stop,
      fresh_state\<lparr>gemini_chat :=
                    Some \<lparr>model = ''gemini-2.5-pro'', system_instruction = SYSTEM_PROMPT\<rparr>,
                  model_name := ''gemini-2.5-pro''\<rparr>) \<and>
   messages (snd (initialize_client_and_chat True ''key'' ''gemini-2.5-pro'' SYSTEM_PROMPT
       (Some (exchange ''q1'' ''a1'')) ''t2'' fresh_state)) = []"
proof -
  have ne: "exchange ''q1'' ''a1'' \<noteq> []" by (simp add: exchange_def)
  show ?thesis
    unfolding initialize_restore_stops[OF ne]
    by (simp add: exchange_def fresh_state_def)
qed

text \<open>
  C7. An exception of the send that is not the quota error is not recovered from. With
  the prompt \<open>hello\<close> and a send that raises \<open>timeout\<close>, the execution ends at the
  \<^verbatim>\<open>except\<close> clause of line 194 with an uncaught \<^verbatim>\<open>AttributeError\<close> and without a
  rerun: the transcript holds the user turn alone, and no apology is appended or logged.
\<close>

theorem send_exception_ends_uncaught:
  "script_run fresh_state
     (demo_input\<lparr>chat_prompt := Some ''hello'',
                  send_end := Raises (Other_exception ''timeout'')\<rparr>) =
     (Uncaught AttributeError,
      fresh_state\<lparr>messages := [user_turn ''hello''],
                  history_log := [log_of ''t1'' DEFAULT_MODEL (user_turn ''hello'')]\<rparr>)"
  by (simp add: script_run_def demo_input_def get_api_key_def Let_def process_prompt_def
      fresh_state_def demo_chat_def user_turn_def log_of_def)

text \<open>
  C8. Whenever the script reaches the chat input and finds a prompt there, the
  resulting transcript is the old transcript, the user turn, and then the recorded reply
  if there is one; the resulting log is the old log, the entry of the user turn, and then
  the entry of the recorded reply if there is one and the logging toggle is on. So the
  user turn and its entry are appended for every prompt and every outcome of the send,
  directly behind what was there; and with the toggle off a reply that is recorded goes
  to the transcript while the log gains the user entry alone. After \<open>hello\<close> and
  \<open>hi\<close> with the toggle off the log holds the user entry and nothing else.
\<close>

theorem user_turn_recorded_before_send:
  assumes "reaches_prompt st inp" and "chat_prompt inp = Some p"
  shows "messages (snd (script_run st inp)) =
           messages st @ [user_turn p]
             @ (case recorded_reply inp of None \<Rightarrow> [] | Some r \<Rightarrow> [assistant_turn r]) \<and>
         history_log (snd (script_run st inp)) =
           history_log st @ [log_of (now_user inp) (model_name st) (user_turn p)]
             @ (case recorded_reply inp of
                  None \<Rightarrow> []
                | Some r \<Rightarrow>
                    if log_checkbox inp
                    then [log_of (now_reply inp) (model_name st) (assistant_turn r)]
                    else []) \<and>
         (send_end inp = Done \<and> \<not> log_checkbox inp \<longrightarrow>
            history_log (snd (script_run st inp)) =
              history_log st @ [log_of (now_user inp) (model_name st) (user_turn p)] \<and>
            messages (snd (script_run st inp)) =
              messages st @ [user_turn p]
                @ (if accumulate [] (send_chunks inp) \<noteq> [] \<and>
                      accumulate [] (send_chunks inp) \<noteq> RESTART_MESSAGE
                   then [assistant_turn (accumulate [] (send_chunks inp))] else []))"
proof -
  note run = script_run_result[OF assms]
  have m: "messages (snd (script_run st inp)) =
           messages st @ [user_turn p]
             @ (case recorded_reply inp of None \<Rightarrow> [] | Some r \<Rightarrow> [assistant_turn r])"
    by (simp add: run)
  have l: "history_log (snd (script_run st inp)) =
           history_log st @ [log_of (now_user inp) (model_name st) (user_turn p)]
             @ (case recorded_reply inp of
                  None \<Rightarrow> []
                | Some r \<Rightarrow>
                    if log_checkbox inp
                    then [log_of (now_reply inp) (model_name st) (assistant_turn r)]
                    else [])"
    by (simp add: run)
  have off: "history_log (snd (script_run st inp)) =
              history_log st @ [log_of (now_user inp) (model_name st) (user_turn p)] \<and>
            messages (snd (script_run st inp)) =
              messages st @ [user_turn p]
                @ (if accumulate [] (send_chunks inp) \<noteq> [] \<and>
                      accumulate [] (send_chunks inp) \<noteq> RESTART_MESSAGE
                   then [assistant_turn (accumulate [] (send_chunks inp))] else [])"
    if "send_end inp = Done \<and> \<not> log_checkbox inp"
    using that
    by (cases "recorded_reply inp") (auto simp: m l recorded_reply_def split: if_splits)
  from m l off show ?thesis by blast
qed

theorem user_turn_recorded_before_send_witness:
  "reaches_prompt fresh_state
     (demo_input\<lparr>chat_prompt := Some ''hello'', send_chunks := [\<lparr>chunk_text = Some ''hi''\<rparr>]\<rparr>) \<and>
   messages (snd (script_run fresh_state
     (demo_input\<lparr>chat_prompt := Some ''hello'', send_chunks := [\<lparr>chunk_text = Some ''hi''\<rparr>]\<rparr>))) =
     [user_turn ''hello'', assistant_turn ''hi''] \<and>
   history_log (snd (script_run fresh_state
     (demo_input\<lparr>chat_prompt := Some ''hello'', send_chunks := [\<lparr>chunk_text = Some ''hi''\<rparr>]\<rparr>))) =
     [log_of ''t1'' DEFAULT_MODEL (user_turn ''hello'')]"
proof -
  let ?inp = "demo_input\<lparr>chat_prompt := Some ''hello'', send_chunks := [\<lparr>chunk_text = Some ''hi''\<rparr>]\<rparr>"
  have r: "reaches_prompt fresh_state ?inp"
    by (simp add: reaches_prompt_def fresh_state_def demo_input_def get_api_key_def)
  have p: "chat_prompt ?inp = Some ''hello''" by simp
  have d: "send_end ?inp = Done \<and> \<not> log_checkbox ?inp" by (simp add: demo_input_def)
  from user_turn_recorded_before_send[OF r p] d
  have "history_log (snd (script_run fresh_state ?inp)) =
          history_log fresh_state
            @ [log_of (now_user ?inp) (model_name fresh_state) (user_turn ''hello'')] \<and>
        messages (snd (script_run fresh_state ?inp)) =
          messages fresh_state @ [user_turn ''hello'']
            @ (if accumulate [] (send_chunks ?inp) \<noteq> [] \<and>
                  accumulate [] (send_chunks ?inp) \<noteq> RESTART_MESSAGE
               then [assistant_turn (accumulate [] (send_chunks ?inp))] else [])"
    by blast
  moreover have "accumulate [] (send_chunks ?inp) = ''hi''" by simp
  moreover have "now_user ?inp = ''t1''" and "model_name fresh_state = DEFAULT_MODEL"
    and "messages fresh_state = []" and "history_log fresh_state = []"
    by (simp_all add: demo_input_def fresh_state_def)
  ultimately show ?thesis using r by (simp add: hi_not_restart)
qed



text \<open>
  C10. When every chunk of the streamed reply has an empty or missing text, the
  accumulated reply is the empty string, and the execution appends nothing but the user
  turn and its log entry: no assistant turn reaches the transcript and no assistant
  entry reaches the log, whatever the logging toggle says.
\<close>

theorem empty_reply_leaves_user_turn_unpaired:
  assumes "reaches_prompt st inp" and "chat_prompt inp = Some p" and "send_end inp = Done"
    and "\<forall>c \<in> set (send_chunks inp). chunk_text c = None \<or> chunk_text c = Some []"
  shows "accumulate [] (send_chunks inp) = [] \<and>
         messages (snd (script_run st inp)) = messages st @ [user_turn p] \<and>
         history_log (snd (script_run st inp)) =
           history_log st @ [log_of (now_user inp) (model_name st) (user_turn p)]"
proof -
  have e: "accumulate [] (send_chunks inp) = []"
    using assms(4) by (simp add: accumulate_empty_iff)
  obtain k where "script_run st inp = process_prompt k p inp (st\<lparr>auto_log := log_checkbox inp\<rparr>)"
    using script_run_prompt[OF assms(1,2)] by blast
  then show ?thesis
    using e by (simp add: process_prompt_done[OF assms(3)] record_response_skip)
qed

theorem empty_reply_leaves_user_turn_unpaired_witness:
  "reaches_prompt fresh_state
     (demo_input\<lparr>log_checkbox := True, chat_prompt := Some ''hello'',
                  send_chunks := [\<lparr>chunk_text = None\<rparr>, \<lparr>chunk_text = Some []\<rparr>]\<rparr>) \<and>
   messages (snd (script_run fresh_state
     (demo_input\<lparr>log_checkbox := True, chat_prompt := Some ''hello'',
                  send_chunks := [\<lparr>chunk_text = None\<rparr>, \<lparr>chunk_text = Some []\<rparr>]\<rparr>)))
     = [user_turn ''hello''] \<and>
   history_log (snd (script_run fresh_state
     (demo_input\<lparr>log_checkbox := True, chat_prompt := Some ''hello'',
                  send_chunks := [\<lparr>chunk_text = None\<rparr>, \<lparr>chunk_text = Some []\<rparr>]\<rparr>)))
     = [log_of ''t1'' DEFAULT_MODEL (user_turn ''hello'')]"
proof -
  let ?inp = "demo_input\<lparr>log_checkbox := True, chat_prompt := Some ''hello'',
                  send_chunks := [\<lparr>chunk_text = None\<rparr>, \<lparr>chunk_text = Some []\<rparr>]\<rparr>"
  have r: "reaches_prompt fresh_state ?inp"
    by (simp add: reaches_prompt_def fresh_state_def demo_input_def get_api_key_def)
  have p: "chat_prompt ?inp = Some ''hello''" by simp
  have d: "send_end ?inp = Done" by (simp add: demo_input_def)
  have c: "\<forall>c \<in> set (send_chunks ?inp). chunk_text c = None \<or> chunk_text c = Some []"
    by simp
  show ?thesis
    using r empty_reply_leaves_user_turn_unpaired[OF r p d c]
    by (simp add: fresh_state_def demo_input_def)
qed

end
